theory Spec2Isabelle
  imports Main "HOL-Library.Word"
begin

section \<open>Data model (types.ts)\<close>

text \<open>
  \<^verbatim>\<open>interface MarkAndSpaceMicros { mark: number, space: number }\<close>: carrier-on and
  carrier-off durations in microseconds. The durations are unsigned integers (they come
  from the decoder as such), so they are modelled as \<^typ>\<open>nat\<close>; JavaScript's doubles
  agree with exact arithmetic below \<open>2 ^ 53\<close>.
\<close>

record MarkAndSpaceMicros =
  mark :: nat
  space :: nat

type_synonym InfraredRemoteFrame = "MarkAndSpaceMicros list"

section \<open>IrSignal: the chart points and the table rows\<close>

text \<open>
  \<^verbatim>\<open>interface DatumForGraph { time: number, bit: number }\<close>. The field \<^verbatim>\<open>bit\<close> is
  \<open>bit_level\<close> here, since \<open>bit\<close> is a constant of the library.
\<close>

record DatumForGraph =
  time :: nat
  bit_level :: nat

text \<open>
  \<^verbatim>\<open>interface DatumForList { key, seq_num, start_time: number, kinds: string, duration: number }\<close>
\<close>

record DatumForList =
  key :: nat
  seq_num :: nat
  start_time :: nat
  kinds :: string
  duration :: nat

text \<open>
  The body of \<^verbatim>\<open>input.forEach(item => ...)\<close> in \<^verbatim>\<open>conv_ir_control_signal\<close>, with the
  mutable variables \<^verbatim>\<open>sum\<close> (here \<open>sum0\<close>) and \<^verbatim>\<open>output\<close> passed along.
\<close>

fun conv_ir_control_signal_loop ::
  "MarkAndSpaceMicros list \<Rightarrow> nat \<Rightarrow> DatumForGraph list \<Rightarrow> DatumForGraph list" where
  "conv_ir_control_signal_loop [] sum0 output = output"
| "conv_ir_control_signal_loop (item # rest) sum0 output =
     (let sum1 = sum0 + mark item;
          output1 = output @ [\<lparr>time = sum1, bit_level = 1\<rparr>];
          sum2 = sum1 + space item;
          output2 = output1 @ [\<lparr>time = sum2, bit_level = 0\<rparr>]
      in conv_ir_control_signal_loop rest sum2 output2)"

definition conv_ir_control_signal :: "MarkAndSpaceMicros list \<Rightarrow> DatumForGraph list" where
  "conv_ir_control_signal input =
     (if length input \<ge> 1
      then conv_ir_control_signal_loop input 0 [\<lparr>time = 0, bit_level = 0\<rparr>]
      else [])"

text \<open>The duration of one pair, its mark and its space together.\<close>

definition pair_duration :: "MarkAndSpaceMicros \<Rightarrow> nat" where
  "pair_duration p = mark p + space p"

text \<open>
  The body of \<^verbatim>\<open>input.forEach(item => ...)\<close> in \<^verbatim>\<open>convert_for_list\<close>, with the mutable
  variables \<^verbatim>\<open>start\<close>, \<^verbatim>\<open>sequencenumber\<close> and \<^verbatim>\<open>output\<close> passed along.
\<close>

fun convert_for_list_loop ::
  "MarkAndSpaceMicros list \<Rightarrow> nat \<Rightarrow> nat \<Rightarrow> DatumForList list \<Rightarrow> DatumForList list" where
  "convert_for_list_loop [] start sequencenumber output = output"
| "convert_for_list_loop (item # rest) start sequencenumber output =
     (let output1 = output @ [\<lparr>key = sequencenumber, seq_num = sequencenumber,
                                start_time = start, kinds = ''Mark'', duration = mark item\<rparr>];
          start1 = start + mark item;
          sequencenumber1 = sequencenumber + 1;
          output2 = output1 @ [\<lparr>key = sequencenumber1, seq_num = sequencenumber1,
                                 start_time = start1, kinds = ''Space'', duration = space item\<rparr>];
          start2 = start1 + space item;
          sequencenumber2 = sequencenumber1 + 1
      in convert_for_list_loop rest start2 sequencenumber2 output2)"

definition convert_for_list :: "MarkAndSpaceMicros list \<Rightarrow> DatumForList list" where
  "convert_for_list input = convert_for_list_loop input 0 1 []"

section \<open>Numbers as text\<close>

text \<open>
  \<^verbatim>\<open>Number.prototype.toString()\<close> on a non-negative integer: its decimal digits, most
  significant first, with no leading zero.
\<close>

function toString10 :: "nat \<Rightarrow> string" where
  "toString10 n =
     (if n < 10 then [''0123456789'' ! n]
      else toString10 (n div 10) @ [''0123456789'' ! (n mod 10)])"
  by pat_completeness auto
termination
  by (relation "measure (\<lambda>n. n)") auto

declare toString10.simps [simp del]

text \<open>\<^verbatim>\<open>toString(16)\<close> on a non-negative integer: lower-case hexadecimal digits.\<close>

function toString16 :: "nat \<Rightarrow> string" where
  "toString16 n =
     (if n < 16 then [''0123456789abcdef'' ! n]
      else toString16 (n div 16) @ [''0123456789abcdef'' ! (n mod 16)])"
  by pat_completeness auto
termination
  by (relation "measure (\<lambda>n. n)") auto

declare toString16.simps [simp del]

text \<open>
  \<^verbatim>\<open>toString()\<close> on an integer-valued number of either sign, and on a boolean.
\<close>

definition number_toString :: "int \<Rightarrow> string" where
  "number_toString i = (if i < 0 then CHR ''-'' # toString10 (nat (- i)) else toString10 (nat i))"

definition boolean_toString :: "bool \<Rightarrow> string" where
  "boolean_toString b = (if b then ''true'' else ''false'')"

text \<open>\<^verbatim>\<open>s.padStart(n, c)\<close> with a one-character pad string.\<close>

definition padStart :: "nat \<Rightarrow> char \<Rightarrow> string \<Rightarrow> string" where
  "padStart n c s = replicate (n - length s) c @ s"

section \<open>Typed arrays\<close>

text \<open>
  A \<^verbatim>\<open>Uint8Array\<close> by value: its elements in order. \<^verbatim>\<open>a.slice(b, e)\<close> with
  non-negative \<open>b\<close> and \<open>e\<close> copies the elements at the indices from \<open>b\<close> up to but
  not including \<open>e\<close>, both clamped to the length (an empty array when \<open>e \<le> b\<close>);
  \<^verbatim>\<open>a.slice(b)\<close> copies from \<open>b\<close> to the end.
\<close>

type_synonym Uint8Array = "8 word list"

definition slice_u8 :: "nat \<Rightarrow> nat \<Rightarrow> 'a list \<Rightarrow> 'a list" where
  "slice_u8 b e xs = take (e - b) (drop b xs)"

definition slice_from_u8 :: "nat \<Rightarrow> 'a list \<Rightarrow> 'a list" where
  "slice_from_u8 b xs = drop b xs"

section \<open>IrDecordedFrame: the decoded-frame view\<close>

text \<open>
  \<^verbatim>\<open>to_octets\<close>: the loop \<^verbatim>\<open>for (let i = 0; i < bitstream.length; i += 8)\<close> with its
  counter and the array it pushes to.
\<close>

function to_octets_loop :: "Uint8Array \<Rightarrow> nat \<Rightarrow> Uint8Array list \<Rightarrow> Uint8Array list" where
  "to_octets_loop bitstream i output =
     (if i < length bitstream
      then to_octets_loop bitstream (i + 8) (output @ [slice_u8 i (i + 8) bitstream])
      else output)"
  by pat_completeness auto
termination
  by (relation "measure (\<lambda>(bitstream, i, output). length bitstream - i)") auto

declare to_octets_loop.simps [simp del]

definition to_octets :: "Uint8Array \<Rightarrow> Uint8Array list" where
  "to_octets bitstream = to_octets_loop bitstream 0 []"

text \<open>
  \<^verbatim>\<open>type IrFrameValue = { frame_label: string, items: { item_label: string, value: Uint8Array }[] }\<close>.
  The field \<^verbatim>\<open>value\<close> of an item is \<open>item_value\<close> here.
\<close>

record IrFrameItem =
  item_label :: string
  item_value :: Uint8Array

record IrFrameValue =
  frame_label :: string
  items :: "IrFrameItem list"

text \<open>
  A decoded frame as the view receives it: an object that carries one of the keys
  \<^verbatim>\<open>Aeha\<close>, \<^verbatim>\<open>Nec\<close>, \<^verbatim>\<open>Sirc\<close> (each a bit array, one element per bit) or \<^verbatim>\<open>Unknown\<close>.
  A key that is absent is \<open>None\<close>, so that \<^verbatim>\<open>'Aeha' in decorded_frame\<close> is
  \<open>Aeha decorded_frame \<noteq> None\<close>.
\<close>

record DecordedInfraredRemoteFrame =
  Aeha :: "Uint8Array option"
  Nec :: "Uint8Array option"
  Sirc :: "Uint8Array option"
  Unknown :: "MarkAndSpaceMicros list option"

text \<open>The one exception the views throw: \<^verbatim>\<open>new Error('unimplemented')\<close>.\<close>

datatype js_error = Unimplemented

definition ir_frame_value :: "DecordedInfraredRemoteFrame \<Rightarrow> js_error + IrFrameValue" where
  "ir_frame_value decorded_frame =
     (case Aeha decorded_frame of
        Some aeha \<Rightarrow>
          (let octets = to_octets aeha in
           Inr \<lparr>frame_label = ''AEHA'',
                items = map (\<lambda>(x, index).
                               \<lparr>item_label = ''offset '' @ toString10 (8 * index), item_value = x\<rparr>)
                            (zip octets [0 ..< length octets])\<rparr>)
      | None \<Rightarrow>
     (case Nec decorded_frame of
        Some nec \<Rightarrow>
          Inr \<lparr>frame_label = ''NEC'',
               items = [\<lparr>item_label = ''Address'', item_value = slice_u8 0 8 nec\<rparr>,
                        \<lparr>item_label = ''(Logical Inverse) Address'', item_value = slice_u8 8 16 nec\<rparr>,
                        \<lparr>item_label = ''Command'', item_value = slice_u8 16 24 nec\<rparr>,
                        \<lparr>item_label = ''(Logical Inverse) Command'', item_value = slice_u8 24 32 nec\<rparr>]\<rparr>
      | None \<Rightarrow>
     (case Sirc decorded_frame of
        Some sirc \<Rightarrow>
          Inr \<lparr>frame_label = ''SIRC'',
               items = [\<lparr>item_label = ''command'', item_value = slice_u8 0 5 sirc\<rparr>,
                        \<lparr>item_label = ''address'', item_value = slice_from_u8 5 sirc\<rparr>]\<rparr>
      | None \<Rightarrow>
     (case Unknown decorded_frame of
        Some u \<Rightarrow> Inr \<lparr>frame_label = ''UNKNOWN'', items = []\<rparr>
      | None \<Rightarrow> Inl Unimplemented))))"

text \<open>The frames that carry the key \<^verbatim>\<open>Nec\<close> or \<^verbatim>\<open>Sirc\<close> and no other.\<close>

definition nec_frame :: "Uint8Array \<Rightarrow> DecordedInfraredRemoteFrame" where
  "nec_frame bits = \<lparr>Aeha = None, Nec = Some bits, Sirc = None, Unknown = None\<rparr>"

definition sirc_frame :: "Uint8Array \<Rightarrow> DecordedInfraredRemoteFrame" where
  "sirc_frame bits = \<lparr>Aeha = None, Nec = None, Sirc = Some bits, Unknown = None\<rparr>"

section \<open>to_hex_string and the array store\<close>

text \<open>
  \<^verbatim>\<open>to_hex_string\<close> receives a reference to a \<^verbatim>\<open>Uint8Array\<close> and may call the
  in-place \<^verbatim>\<open>reverse()\<close>, so the arrays live in a store: a reference is an index
  into the list of all arrays allocated so far. \<^verbatim>\<open>a.slice()\<close> allocates a new array
  with the same elements and returns the reference to it; \<^verbatim>\<open>a.reverse()\<close> reverses
  the array behind the reference in place and returns the same reference. A reference
  that the program holds is to an allocated array: \<open>r < length h\<close>.
\<close>

type_synonym ref = nat
type_synonym store = "Uint8Array list"

definition store_slice :: "ref \<Rightarrow> store \<Rightarrow> ref \<times> store" where
  "store_slice r h = (length h, h @ [h ! r])"

definition store_reverse :: "ref \<Rightarrow> store \<Rightarrow> ref \<times> store" where
  "store_reverse r h = (r, h[r := rev (h ! r)])"

text \<open>
  \<^verbatim>\<open>xs.reduce((acc, x) => 2 * acc + x, 0)\<close>, in exact arithmetic (the doubles of
  JavaScript agree with it below \<open>2 ^ 53\<close>, that is for up to 53 bits).
\<close>

definition reduce_bits :: "Uint8Array \<Rightarrow> nat" where
  "reduce_bits xs = foldl (\<lambda>acc x. 2 * acc + unat x) 0 xs"

text \<open>
  \<^verbatim>\<open>to_hex_string\<close> (the same text in both decoded-frame views); it returns the string
  and the store it leaves behind.
\<close>

definition to_hex_string :: "bool \<Rightarrow> ref \<Rightarrow> store \<Rightarrow> string \<times> store" where
  "to_hex_string msb_first octets h =
     (let (xs, h1) = (if msb_first then (octets, h)
                      else (let (copy, h') = store_slice octets h in store_reverse copy h'))
      in (padStart 2 (CHR ''0'') (toString16 (reduce_bits (h1 ! xs))), h1))"

section \<open>IrControlCode: the command cards\<close>

text \<open>
  The payloads of \<^verbatim>\<open>InfraredRemoteControlCode\<close> (types.ts). The \<^verbatim>\<open>number\<close> fields hold
  integers (degrees, hours, a checksum byte) and are modelled as \<^typ>\<open>int\<close>.
\<close>

record SircCode =
  command :: string
  device :: string

record PanasonicHvac =
  pa_temperature :: int
  pa_mode :: string
  pa_switch :: bool
  pa_swing :: string
  pa_fan :: string
  pa_profile :: string
  pa_checksum :: int

record DaikinHvac =
  da_temperature :: int
  da_mode :: string
  da_on_timer :: bool
  da_on_timer_duration_hour :: int
  da_off_timer :: bool
  da_off_timer_duration_hour :: int
  da_switch :: bool
  da_swing :: string
  da_fan :: string
  da_checksum :: int

record HitachiHvac =
  hi_temperature :: int
  hi_mode :: string
  hi_fan :: string
  hi_switch :: bool

record MitsubishiElectricHvac =
  mi_temperature :: int
  mi_mode1 :: string
  mi_switch :: bool
  mi_checksum :: int

text \<open>
  A control code as the renderer receives it: an object with the key of its tag. An
  absent key is \<open>None\<close>, so that \<^verbatim>\<open>'Sirc' in ir_code\<close> is \<open>cc_Sirc ir_code \<noteq> None\<close>.
  The frames under \<^verbatim>\<open>Unknown\<close> are never read by the renderer; their type is a
  parameter.
\<close>

record 'frame InfraredRemoteControlCode =
  cc_Sirc :: "SircCode option"
  cc_PanasonicHvac :: "PanasonicHvac option"
  cc_DaikinHvac :: "DaikinHvac option"
  cc_HitachiHvac :: "HitachiHvac option"
  cc_MitsubishiElectricHvac :: "MitsubishiElectricHvac option"
  cc_Unknown :: "'frame list option"

text \<open>The value carries one of the six tags of the type.\<close>

definition has_tag :: "'frame InfraredRemoteControlCode \<Rightarrow> bool" where
  "has_tag ir_code =
     (cc_Sirc ir_code \<noteq> None \<or> cc_PanasonicHvac ir_code \<noteq> None \<or>
      cc_DaikinHvac ir_code \<noteq> None \<or> cc_HitachiHvac ir_code \<noteq> None \<or>
      cc_MitsubishiElectricHvac ir_code \<noteq> None \<or> cc_Unknown ir_code \<noteq> None)"

text \<open>The value carries a tag other than \<^verbatim>\<open>Unknown\<close>.\<close>

definition has_vendor_tag :: "'frame InfraredRemoteControlCode \<Rightarrow> bool" where
  "has_vendor_tag ir_code =
     (cc_Sirc ir_code \<noteq> None \<or> cc_PanasonicHvac ir_code \<noteq> None \<or>
      cc_DaikinHvac ir_code \<noteq> None \<or> cc_HitachiHvac ir_code \<noteq> None \<or>
      cc_MitsubishiElectricHvac ir_code \<noteq> None)"

definition no_code :: "'frame InfraredRemoteControlCode" where
  "no_code = \<lparr>cc_Sirc = None, cc_PanasonicHvac = None, cc_DaikinHvac = None,
              cc_HitachiHvac = None, cc_MitsubishiElectricHvac = None, cc_Unknown = None\<rparr>"

definition unknown_code :: "'frame list \<Rightarrow> 'frame InfraredRemoteControlCode" where
  "unknown_code frames = no_code\<lparr>cc_Unknown := Some frames\<rparr>"

text \<open>
  The Japanese texts of the cards, as the UTF-8 bytes of the source file.
\<close>

definition text_sony :: string where \<comment> \<open>Sony\<close>
  "text_sony =
     [CHR 0xE3, CHR 0x82, CHR 0xBD, CHR 0xE3, CHR 0x83, CHR 0x8B,
      CHR 0xE3, CHR 0x83, CHR 0xBC]"

definition text_panasonic :: string where \<comment> \<open>Panasonic\<close>
  "text_panasonic =
     [CHR 0xE3, CHR 0x83, CHR 0x91, CHR 0xE3, CHR 0x83, CHR 0x8A,
      CHR 0xE3, CHR 0x82, CHR 0xBD, CHR 0xE3, CHR 0x83, CHR 0x8B,
      CHR 0xE3, CHR 0x83, CHR 0x83, CHR 0xE3, CHR 0x82, CHR 0xAF]"

definition text_aircon :: string where \<comment> \<open>air conditioner\<close>
  "text_aircon =
     [CHR 0xE3, CHR 0x82, CHR 0xA8, CHR 0xE3, CHR 0x82, CHR 0xA2,
      CHR 0xE3, CHR 0x82, CHR 0xB3, CHR 0xE3, CHR 0x83, CHR 0xB3]"

definition text_temperature :: string where \<comment> \<open>temperature\<close>
  "text_temperature =
     [CHR 0xE6, CHR 0xB8, CHR 0xA9, CHR 0xE5, CHR 0xBA, CHR 0xA6]"

definition text_mode :: string where \<comment> \<open>mode\<close>
  "text_mode =
     [CHR 0xE3, CHR 0x83, CHR 0xA2, CHR 0xE3, CHR 0x83, CHR 0xBC,
      CHR 0xE3, CHR 0x83, CHR 0x89]"

definition text_power :: string where \<comment> \<open>power\<close>
  "text_power =
     [CHR 0xE9, CHR 0x9B, CHR 0xBB, CHR 0xE6, CHR 0xBA, CHR 0x90]"

definition text_fan :: string where \<comment> \<open>fan speed\<close>
  "text_fan =
     [CHR 0xE9, CHR 0xA2, CHR 0xA8, CHR 0xE9, CHR 0x87, CHR 0x8F]"

definition text_checksum :: string where \<comment> \<open>checksum\<close>
  "text_checksum =
     [CHR 0xE3, CHR 0x83, CHR 0x81, CHR 0xE3, CHR 0x82, CHR 0xA7,
      CHR 0xE3, CHR 0x83, CHR 0x83, CHR 0xE3, CHR 0x82, CHR 0xAF,
      CHR 0xE3, CHR 0x82, CHR 0xB5, CHR 0xE3, CHR 0x83, CHR 0xA0]"

definition text_daikin :: string where \<comment> \<open>Daikin\<close>
  "text_daikin =
     [CHR 0xE3, CHR 0x83, CHR 0x80, CHR 0xE3, CHR 0x82, CHR 0xA4,
      CHR 0xE3, CHR 0x82, CHR 0xAD, CHR 0xE3, CHR 0x83, CHR 0xB3]"

definition text_on_timer :: string where \<comment> \<open>on timer\<close>
  "text_on_timer =
     [CHR 0xE3, CHR 0x82, CHR 0xAA, CHR 0xE3, CHR 0x83, CHR 0xB3,
      CHR 0xE3, CHR 0x82, CHR 0xBF, CHR 0xE3, CHR 0x82, CHR 0xA4,
      CHR 0xE3, CHR 0x83, CHR 0x9E, CHR 0xE3, CHR 0x83, CHR 0xBC]"

definition text_on_duration :: string where \<comment> \<open>on duration\<close>
  "text_on_duration =
     [CHR 0xE3, CHR 0x82, CHR 0xAA, CHR 0xE3, CHR 0x83, CHR 0xB3,
      CHR 0xE7, CHR 0xB6, CHR 0x99, CHR 0xE7, CHR 0xB6, CHR 0x9A,
      CHR 0xE6, CHR 0x99, CHR 0x82, CHR 0xE9, CHR 0x96, CHR 0x93]"

definition text_off_timer :: string where \<comment> \<open>off timer\<close>
  "text_off_timer =
     [CHR 0xE3, CHR 0x82, CHR 0xAA, CHR 0xE3, CHR 0x83, CHR 0x95,
      CHR 0xE3, CHR 0x82, CHR 0xBF, CHR 0xE3, CHR 0x82, CHR 0xA4,
      CHR 0xE3, CHR 0x83, CHR 0x9E, CHR 0xE3, CHR 0x83, CHR 0xBC]"

definition text_off_duration :: string where \<comment> \<open>off duration\<close>
  "text_off_duration =
     [CHR 0xE3, CHR 0x82, CHR 0xAA, CHR 0xE3, CHR 0x83, CHR 0x95,
      CHR 0xE7, CHR 0xB6, CHR 0x99, CHR 0xE7, CHR 0xB6, CHR 0x9A,
      CHR 0xE6, CHR 0x99, CHR 0x82, CHR 0xE9, CHR 0x96, CHR 0x93]"

definition text_hitachi :: string where \<comment> \<open>Hitachi\<close>
  "text_hitachi =
     [CHR 0xE6, CHR 0x97, CHR 0xA5, CHR 0xE7, CHR 0xAB, CHR 0x8B]"

definition text_mitsubishi :: string where \<comment> \<open>Mitsubishi Electric\<close>
  "text_mitsubishi =
     [CHR 0xE4, CHR 0xB8, CHR 0x89, CHR 0xE8, CHR 0x8F, CHR 0xB1,
      CHR 0xE9, CHR 0x9B, CHR 0xBB, CHR 0xE6, CHR 0xA9, CHR 0x9F]"

definition text_mode1 :: string where \<comment> \<open>mode 1\<close>
  "text_mode1 =
     [CHR 0xE3, CHR 0x83, CHR 0xA2, CHR 0xE3, CHR 0x83, CHR 0xBC,
      CHR 0xE3, CHR 0x83, CHR 0x89, CHR 0x31]"

definition text_unknown :: string where \<comment> \<open>unknown\<close>
  "text_unknown =
     [CHR 0xE4, CHR 0xB8, CHR 0x8D, CHR 0xE6, CHR 0x98, CHR 0x8E]"

text \<open>
  \<^verbatim>\<open>interface T { label: string, value: string }\<close> (the field \<^verbatim>\<open>value\<close> is
  \<open>value_text\<close> here) and the element that \<^verbatim>\<open>descriptions_item(key, label, value)\<close>
  builds: a \<^verbatim>\<open>Descriptions.Item\<close> with its key, its label and the value it shows.
\<close>

record T =
  label :: string
  value_text :: string

record DescriptionsItem =
  el_key :: string
  el_label :: string
  el_value :: string

definition descriptions_item :: "string \<Rightarrow> string \<Rightarrow> string \<Rightarrow> DescriptionsItem" where
  "descriptions_item k l v = \<lparr>el_key = k, el_label = l, el_value = v\<rparr>"

text \<open>\<^verbatim>\<open>list.map((v) => { return descriptions_item(v.label, v.label, v.value); })\<close>\<close>

definition render_list :: "T list \<Rightarrow> DescriptionsItem list" where
  "render_list list = map (\<lambda>v. descriptions_item (label v) (label v) (value_text v)) list"

definition on_off :: "bool \<Rightarrow> string" where
  "on_off b = (if b then ''ON'' else ''OFF'')"

definition display_ir_code ::
  "'frame InfraredRemoteControlCode \<Rightarrow> js_error + DescriptionsItem list" where
  "display_ir_code ir_code =
     (case cc_Sirc ir_code of
        Some sirc \<Rightarrow> Inr (render_list
          [\<lparr>label = ''manufacturer'', value_text = text_sony\<rparr>,
           \<lparr>label = ''device'', value_text = device sirc\<rparr>,
           \<lparr>label = ''command'', value_text = command sirc\<rparr>])
      | None \<Rightarrow>
     (case cc_PanasonicHvac ir_code of
        Some pa \<Rightarrow> Inr (render_list
          [\<lparr>label = ''manufacturer'', value_text = text_panasonic\<rparr>,
           \<lparr>label = ''device'', value_text = text_aircon\<rparr>,
           \<lparr>label = text_temperature, value_text = number_toString (pa_temperature pa)\<rparr>,
           \<lparr>label = text_mode, value_text = pa_mode pa\<rparr>,
           \<lparr>label = text_power, value_text = on_off (pa_switch pa)\<rparr>,
           \<lparr>label = ''swing'', value_text = pa_swing pa\<rparr>,
           \<lparr>label = text_fan, value_text = pa_fan pa\<rparr>,
           \<lparr>label = text_checksum, value_text = number_toString (pa_checksum pa)\<rparr>])
      | None \<Rightarrow>
     (case cc_DaikinHvac ir_code of
        Some da \<Rightarrow> Inr (render_list
          [\<lparr>label = ''manufacturer'', value_text = text_daikin\<rparr>,
           \<lparr>label = ''device'', value_text = text_aircon\<rparr>,
           \<lparr>label = text_temperature, value_text = number_toString (da_temperature da)\<rparr>,
           \<lparr>label = text_mode, value_text = da_mode da\<rparr>,
           \<lparr>label = text_on_timer, value_text = boolean_toString (da_on_timer da)\<rparr>,
           \<lparr>label = text_on_duration,
             value_text = number_toString (da_on_timer_duration_hour da)\<rparr>,
           \<lparr>label = text_off_timer, value_text = boolean_toString (da_off_timer da)\<rparr>,
           \<lparr>label = text_off_duration,
             value_text = number_toString (da_off_timer_duration_hour da)\<rparr>,
           \<lparr>label = text_power, value_text = on_off (da_switch da)\<rparr>,
           \<lparr>label = ''swing'', value_text = da_swing da\<rparr>,
           \<lparr>label = text_fan, value_text = da_fan da\<rparr>,
           \<lparr>label = text_checksum, value_text = number_toString (da_checksum da)\<rparr>])
      | None \<Rightarrow>
     (case cc_HitachiHvac ir_code of
        Some hi \<Rightarrow> Inr (render_list
          [\<lparr>label = ''manufacturer'', value_text = text_hitachi\<rparr>,
           \<lparr>label = ''device'', value_text = text_aircon\<rparr>,
           \<lparr>label = text_temperature, value_text = number_toString (hi_temperature hi)\<rparr>,
           \<lparr>label = text_mode, value_text = hi_mode hi\<rparr>,
           \<lparr>label = text_power, value_text = on_off (hi_switch hi)\<rparr>,
           \<lparr>label = text_fan, value_text = hi_fan hi\<rparr>])
      | None \<Rightarrow>
     (case cc_MitsubishiElectricHvac ir_code of
        Some mi \<Rightarrow> Inr (render_list
          [\<lparr>label = ''manufacturer'', value_text = text_mitsubishi\<rparr>,
           \<lparr>label = ''device'', value_text = text_aircon\<rparr>,
           \<lparr>label = text_temperature, value_text = number_toString (mi_temperature mi)\<rparr>,
           \<lparr>label = text_mode1, value_text = mi_mode1 mi\<rparr>,
           \<lparr>label = text_power, value_text = on_off (mi_switch mi)\<rparr>,
           \<lparr>label = text_checksum, value_text = number_toString (mi_checksum mi)\<rparr>])
      | None \<Rightarrow>
     (case cc_Unknown ir_code of
        Some frames \<Rightarrow> Inr (render_list
          [\<lparr>label = ''manufacturer'', value_text = text_unknown\<rparr>,
           \<lparr>label = ''device'', value_text = text_unknown\<rparr>])
      | None \<Rightarrow> Inl Unimplemented))))))"

section \<open>SerialConnectionEffect: ingesting received lines\<close>

text \<open>
  \<^verbatim>\<open>rxText.split(/\r?\n/)\<close>: the text is cut at every line feed, and a carriage return
  right before a line feed belongs to the separator. The first argument collects the
  characters of the line being read. The text without any line feed is one line, the
  empty text included.
\<close>

fun split_lines_from :: "string \<Rightarrow> string \<Rightarrow> string list" where
  "split_lines_from cur [] = [cur]"
| "split_lines_from cur [c] = (if c = CHR 0x0A then [cur, []] else [cur @ [c]])"
| "split_lines_from cur (c # d # cs) =
     (if c = CHR 0x0A then cur # split_lines_from [] (d # cs)
      else if c = CHR 0x0D \<and> d = CHR 0x0A then cur # split_lines_from [] cs
      else split_lines_from (cur @ [c]) (d # cs))"

definition split_lines :: "string \<Rightarrow> string list" where
  "split_lines s = split_lines_from [] s"

text \<open>
  \<^verbatim>\<open>lines.slice(-2)\<close>: the last two elements, or all of them when there are fewer.
  \<^verbatim>\<open>xs[0]\<close>: the first element, \<^verbatim>\<open>undefined\<close> (here \<open>None\<close>) on an empty array.
\<close>

definition slice_last2 :: "'a list \<Rightarrow> 'a list" where
  "slice_last2 xs = drop (length xs - 2) xs"

definition index0 :: "'a list \<Rightarrow> 'a option" where
  "index0 xs = (case xs of [] \<Rightarrow> None | x # rest \<Rightarrow> Some x)"

text \<open>
  The two atoms the effect reads and writes: \<^verbatim>\<open>rxJsonDataState\<close> and \<^verbatim>\<open>rxTextState\<close>.
  The records are whatever \<^verbatim>\<open>JSON.parse\<close> returns.
\<close>

record 'json rx_state =
  rxJsonData :: "'json list"
  rxText :: string

text \<open>
  The effect that runs when \<^verbatim>\<open>rxText\<close> has changed. \<^verbatim>\<open>JSON.parse\<close> is the platform's;
  it is a parameter that returns \<open>None\<close> where \<^verbatim>\<open>JSON.parse\<close> throws. The \<^verbatim>\<open>catch\<close>
  block is empty: a throw leaves the state as it was. \<^verbatim>\<open>if (last)\<close> is false on
  \<^verbatim>\<open>undefined\<close> and on the empty string.
\<close>

definition rx_text_effect ::
  "(string \<Rightarrow> 'json option) \<Rightarrow> 'json rx_state \<Rightarrow> 'json rx_state" where
  "rx_text_effect JSON_parse st =
     (let lines = split_lines (rxText st);
          last_line = index0 (slice_last2 lines)
      in case last_line of
           None \<Rightarrow> st
         | Some l \<Rightarrow>
             if l = [] then st
             else (case JSON_parse l of
                     None \<Rightarrow> st
                   | Some rx_json \<Rightarrow>
                       st\<lparr>rxJsonData := rxJsonData st @ [rx_json], rxText := []\<rparr>))"

text \<open>
  The reading under which only the second-to-last line is ever looked at: a text of a
  single line has no such line. It is compared with \<^const>\<open>rx_text_effect\<close> below.
\<close>

definition second_to_last :: "'a list \<Rightarrow> 'a option" where
  "second_to_last xs = (if 2 \<le> length xs then Some (xs ! (length xs - 2)) else None)"

definition rx_text_effect_second_to_last_only ::
  "(string \<Rightarrow> 'json option) \<Rightarrow> 'json rx_state \<Rightarrow> 'json rx_state" where
  "rx_text_effect_second_to_last_only JSON_parse st =
     (case second_to_last (split_lines (rxText st)) of
        None \<Rightarrow> st
      | Some l \<Rightarrow>
          if l = [] then st
          else (case JSON_parse l of
                  None \<Rightarrow> st
                | Some rx_json \<Rightarrow>
                    st\<lparr>rxJsonData := rxJsonData st @ [rx_json], rxText := []\<rparr>))"

text \<open>A stand-in for \<^verbatim>\<open>JSON.parse\<close> that accepts the text \<^verbatim>\<open>1\<close> (the number 1) and
  rejects everything else.\<close>

definition parse_only_one :: "string \<Rightarrow> nat option" where
  "parse_only_one s = (if s = ''1'' then Some 1 else None)"

section \<open>TimingParser (modelled from the specification)\<close>

text \<open>
  The parser \<^verbatim>\<open>wasm_parse_infrared_code\<close> is part of the Rust crate under \<^verbatim>\<open>wasm/\<close>, of
  which only \<^verbatim>\<open>Cargo.toml\<close> is at hand; the TypeScript sources only call it. This
  section follows the specification of the TimingParser (sections 4.1, 6, 7 and 8)
  instead.
\<close>

text \<open>
  Modelled from the spec: the two hard failures of \<^verbatim>\<open>wasm_parse_infrared_code\<close>
  (sections 4.1 and 7).
\<close>

datatype parse_error = MalformedInput | OutOfRange

text \<open>
  Modelled from the spec: the characters of an unsigned integer of
  \<^verbatim>\<open>wasm_parse_infrared_code\<close>'s input, the decimal digits.
\<close>

definition is_digit :: "char \<Rightarrow> bool" where
  "is_digit c = (c \<in> set ''0123456789'')"

text \<open>
  Modelled from the spec: the value of a decimal digit of \<^verbatim>\<open>wasm_parse_infrared_code\<close>'s
  input (the digits are the characters 48 to 57).
\<close>

definition digit_value :: "char \<Rightarrow> nat" where
  "digit_value c = of_char c - 48"

text \<open>
  Modelled from the spec: the tokens of \<^verbatim>\<open>wasm_parse_infrared_code\<close>. The input is a
  text of delimiter-separated unsigned integers. The specification leaves the accepted
  delimiters open, so they are a parameter \<open>delim\<close>; a run of delimiters separates
  two tokens and delimiters at either end are skipped.
\<close>

fun tokens_from :: "(char \<Rightarrow> bool) \<Rightarrow> string \<Rightarrow> string \<Rightarrow> string list" where
  "tokens_from delim cur [] = (if cur = [] then [] else [cur])"
| "tokens_from delim cur (c # cs) =
     (if delim c then (if cur = [] then tokens_from delim [] cs
                       else cur # tokens_from delim [] cs)
      else tokens_from delim (cur @ [c]) cs)"

text \<open>
  Modelled from the spec: reading a token of \<^verbatim>\<open>wasm_parse_infrared_code\<close> as a
  non-negative integer in decimal digits; \<open>None\<close> on any other character (a letter, a
  sign).
\<close>

fun parse_digits :: "nat \<Rightarrow> string \<Rightarrow> nat option" where
  "parse_digits acc [] = Some acc"
| "parse_digits acc (c # cs) =
     (if is_digit c then parse_digits (10 * acc + digit_value c) cs else None)"

text \<open>
  Modelled from the spec: a token of \<^verbatim>\<open>wasm_parse_infrared_code\<close> is numeric when it has
  at least one character and all of them are digits.
\<close>

definition parse_token :: "string \<Rightarrow> nat option" where
  "parse_token t = (if t = [] then None else parse_digits 0 t)"

text \<open>
  Modelled from the spec: all tokens of \<^verbatim>\<open>wasm_parse_infrared_code\<close>'s input in order;
  \<open>None\<close> when one of them is not numeric.
\<close>

fun parse_tokens :: "string list \<Rightarrow> nat list option" where
  "parse_tokens [] = Some []"
| "parse_tokens (t # ts) =
     (case parse_token t of
        None \<Rightarrow> None
      | Some n \<Rightarrow> (case parse_tokens ts of None \<Rightarrow> None | Some ns \<Rightarrow> Some (n # ns)))"

text \<open>
  Modelled from the spec: the pairs \<^verbatim>\<open>wasm_parse_infrared_code\<close> builds. The integers
  alternate mark, space, mark, space; an odd count yields a final pair with a zero
  trailing space.
\<close>

fun to_pairs :: "nat list \<Rightarrow> MarkAndSpaceMicros list" where
  "to_pairs [] = []"
| "to_pairs [m] = [\<lparr>mark = m, space = 0\<rparr>]"
| "to_pairs (m # s # rest) = \<lparr>mark = m, space = s\<rparr> # to_pairs rest"

text \<open>
  Modelled from the spec: \<^verbatim>\<open>wasm_parse_infrared_code\<close>, the TimingParser of section 4.1.
  It fails with \<open>MalformedInput\<close> on an input without any integer and on a token that
  is not a non-negative integer, and with \<open>OutOfRange\<close> when a duration exceeds the
  upper bound; the specification does not give the bound, so it is the parameter
  \<open>upper\<close>.
\<close>

definition wasm_parse_infrared_code ::
  "(char \<Rightarrow> bool) \<Rightarrow> nat \<Rightarrow> string \<Rightarrow> parse_error + MarkAndSpaceMicros list" where
  "wasm_parse_infrared_code delim upper input_text =
     (let toks = tokens_from delim [] input_text in
      if toks = [] then Inl MalformedInput
      else case parse_tokens toks of
             None \<Rightarrow> Inl MalformedInput
           | Some ns \<Rightarrow>
               if list_ex (\<lambda>n. upper < n) ns then Inl OutOfRange else Inr (to_pairs ns))"

text \<open>
  Modelled from the spec: the integers of a pair sequence, the input form of
  \<^verbatim>\<open>wasm_parse_infrared_code\<close>: mark then space for each pair in order.
\<close>

definition durations :: "MarkAndSpaceMicros list \<Rightarrow> nat list" where
  "durations pairs = concat (map (\<lambda>p. [mark p, space p]) pairs)"

text \<open>
  Modelled from the spec: integers as an input text of \<^verbatim>\<open>wasm_parse_infrared_code\<close>, in
  decimal with the delimiter \<open>d\<close> between two numbers.
\<close>

fun render_numbers :: "char \<Rightarrow> nat list \<Rightarrow> string" where
  "render_numbers d [] = []"
| "render_numbers d [n] = toString10 n"
| "render_numbers d (n # m # ns) = toString10 n @ d # render_numbers d (m # ns)"

text \<open>
  Modelled from the spec: \<open>render\<close> of the round-trip property (section 8), the text
  form of a pair sequence that \<^verbatim>\<open>wasm_parse_infrared_code\<close> reads. No function of the
  sources renders pairs to text.
\<close>

definition render :: "char \<Rightarrow> MarkAndSpaceMicros list \<Rightarrow> string" where
  "render d pairs = render_numbers d (durations pairs)"

text \<open>
  Modelled from the spec: one choice of accepted delimiters for
  \<^verbatim>\<open>wasm_parse_infrared_code\<close>, comma and blank (the specification's scenario
  \<^verbatim>\<open>"abc,123"\<close> separates by a comma).
\<close>

definition comma_or_blank :: "char \<Rightarrow> bool" where
  "comma_or_blank c = (c = CHR '','' \<or> c = CHR '' '')"

section \<open>The decoded-frame view: SIRC, NEC and AEHA items\<close>

lemma slice_u8_nth:
  "b \<le> e \<Longrightarrow> e \<le> length xs \<Longrightarrow> slice_u8 b e xs = map ((!) xs) [b ..< e]"
  by (rule nth_equalityI) (simp_all add: slice_u8_def)

lemma ir_frame_value_sirc:
  "ir_frame_value (sirc_frame bits) =
     Inr \<lparr>frame_label = ''SIRC'',
          items = [\<lparr>item_label = ''command'', item_value = take 5 bits\<rparr>,
                   \<lparr>item_label = ''address'', item_value = drop 5 bits\<rparr>]\<rparr>"
  by (simp add: ir_frame_value_def sirc_frame_def slice_u8_def slice_from_u8_def)

text \<open>
  C1. For a Sirc-tagged bitstream the view is meant to show the first 7 bits as the
  command and the bits after them as the address (5 of a 12-bit frame). The code cuts
  the command after 5 bits: on the 12-bit frame below, \<^verbatim>\<open>ir_frame_value\<close> returns a
  command of 5 bits and an address of 7 bits.
\<close>

theorem ir_frame_value_sirc_command_five_bits:
  "ir_frame_value (sirc_frame [1, 0, 1, 0, 1, 0, 0, 1, 0, 0, 0, 0]) =
     Inr \<lparr>frame_label = ''SIRC'',
          items = [\<lparr>item_label = ''command'', item_value = [1, 0, 1, 0, 1]\<rparr>,
                   \<lparr>item_label = ''address'', item_value = [0, 0, 1, 0, 0, 0, 0]\<rparr>]\<rparr>"
  by (simp add: ir_frame_value_def sirc_frame_def slice_u8_def slice_from_u8_def)

text \<open>
  C2. For every Nec-tagged bitstream of at least 32 bits the view has four items, the
  bits at the indices 0 to 7 (Address), 8 to 15 (inverse Address), 16 to 23 (Command)
  and 24 to 31 (inverse Command), and the four items one after the other are the first
  32 bits of the bitstream.
\<close>

theorem ir_frame_value_nec_layout:
  assumes "32 \<le> length bits"
  shows "ir_frame_value (nec_frame bits) =
           Inr \<lparr>frame_label = ''NEC'',
                items = [\<lparr>item_label = ''Address'', item_value = map ((!) bits) [0 ..< 8]\<rparr>,
                         \<lparr>item_label = ''(Logical Inverse) Address'',
                           item_value = map ((!) bits) [8 ..< 16]\<rparr>,
                         \<lparr>item_label = ''Command'', item_value = map ((!) bits) [16 ..< 24]\<rparr>,
                         \<lparr>item_label = ''(Logical Inverse) Command'',
                           item_value = map ((!) bits) [24 ..< 32]\<rparr>]\<rparr>
         \<and> map ((!) bits) [0 ..< 8] @ map ((!) bits) [8 ..< 16] @
           map ((!) bits) [16 ..< 24] @ map ((!) bits) [24 ..< 32] = take 32 bits"
proof
  from assms show "ir_frame_value (nec_frame bits) =
           Inr \<lparr>frame_label = ''NEC'',
                items = [\<lparr>item_label = ''Address'', item_value = map ((!) bits) [0 ..< 8]\<rparr>,
                         \<lparr>item_label = ''(Logical Inverse) Address'',
                           item_value = map ((!) bits) [8 ..< 16]\<rparr>,
                         \<lparr>item_label = ''Command'', item_value = map ((!) bits) [16 ..< 24]\<rparr>,
                         \<lparr>item_label = ''(Logical Inverse) Command'',
                           item_value = map ((!) bits) [24 ..< 32]\<rparr>]\<rparr>"
    by (simp add: ir_frame_value_def nec_frame_def slice_u8_nth del: upt_Suc map_eq_conv)
  have "map ((!) bits) [0 ..< 8] @ map ((!) bits) [8 ..< 16] @
           map ((!) bits) [16 ..< 24] @ map ((!) bits) [24 ..< 32] = map ((!) bits) [0 ..< 32]"
  proof -
    have "[0 ..< 8] @ [8 ..< 16] @ [16 ..< 24] @ [24 ..< 32] = [0 ..< (32::nat)]"
      by code_simp
    then show ?thesis
      unfolding map_append [symmetric] by (rule arg_cong)
  qed
  also from assms have "\<dots> = take 32 bits"
    using slice_u8_nth [of 0 32 bits] by (simp add: slice_u8_def del: upt_Suc)
  finally show "map ((!) bits) [0 ..< 8] @ map ((!) bits) [8 ..< 16] @
           map ((!) bits) [16 ..< 24] @ map ((!) bits) [24 ..< 32] = take 32 bits" .
qed

theorem ir_frame_value_nec_layout_witness:
  "32 \<le> length
     [0, 0, 0, 0, 0, 0, 0, 1, 1, 1, 1, 1, 1, 1, 1, 0,
      0, 1, 0, 0, 0, 0, 0, 0, 1, 0, 1, 1, 1, 1, 1, 1, 1 :: 8 word] \<and>
   ir_frame_value (nec_frame
     [0, 0, 0, 0, 0, 0, 0, 1, 1, 1, 1, 1, 1, 1, 1, 0,
      0, 1, 0, 0, 0, 0, 0, 0, 1, 0, 1, 1, 1, 1, 1, 1, 1]) =
     Inr \<lparr>frame_label = ''NEC'',
          items = [\<lparr>item_label = ''Address'', item_value = [0, 0, 0, 0, 0, 0, 0, 1]\<rparr>,
                   \<lparr>item_label = ''(Logical Inverse) Address'',
                     item_value = [1, 1, 1, 1, 1, 1, 1, 0]\<rparr>,
                   \<lparr>item_label = ''Command'', item_value = [0, 1, 0, 0, 0, 0, 0, 0]\<rparr>,
                   \<lparr>item_label = ''(Logical Inverse) Command'',
                     item_value = [1, 0, 1, 1, 1, 1, 1, 1]\<rparr>]\<rparr>"
proof -
  let ?bits = "[0, 0, 0, 0, 0, 0, 0, 1, 1, 1, 1, 1, 1, 1, 1, 0,
      0, 1, 0, 0, 0, 0, 0, 0, 1, 0, 1, 1, 1, 1, 1, 1, 1 :: 8 word]"
  have len: "32 \<le> length ?bits" by simp
  from ir_frame_value_nec_layout [OF len] len show ?thesis
    by (simp add: upt_rec)
qed

lemma to_octets_loop_concat:
  "concat (to_octets_loop bs i out) = concat out @ drop i bs"
proof (induction bs i out rule: to_octets_loop.induct)
  case (1 bs i out)
  show ?case
  proof (cases "i < length bs")
    case True
    have "take 8 (drop i bs) @ drop (i + 8) bs = drop i bs"
      using append_take_drop_id [of 8 "drop i bs"] by (simp add: add.commute)
    with True 1 show ?thesis
      by (simp add: to_octets_loop.simps [of bs i out] slice_u8_def)
  next
    case False
    then show ?thesis by (simp add: to_octets_loop.simps [of bs i out])
  qed
qed

lemma div8_small: "0 < d \<Longrightarrow> d < 8 \<Longrightarrow> (d + 7) div 8 = (1::nat)"
  by (simp add: div_nat_eqI)

lemma cnt_step:
  assumes "i < n"
  shows "(n - i + 7) div 8 = Suc ((n - (i + 8) + 7) div (8::nat))"
proof (cases "n - i < 8")
  case True
  with assms have "(n - i + 7) div 8 = 1" by (intro div8_small) simp_all
  moreover from True have "n - (i + 8) = 0" by simp
  ultimately show ?thesis by simp
next
  case False
  then obtain e where e: "n - i = e + 8" by (metis add.commute le_Suc_ex not_less)
  then have "n - (i + 8) = e" by simp
  with e show ?thesis by simp
qed

lemma to_octets_loop_closed:
  "to_octets_loop bs i out =
     out @ map (\<lambda>k. take 8 (drop (i + 8 * k) bs)) [0 ..< (length bs - i + 7) div 8]"
proof (induction bs i out rule: to_octets_loop.induct)
  case (1 bs i out)
  show ?case
  proof (cases "i < length bs")
    case True
    then have cnt: "(length bs - i + 7) div 8 = Suc ((length bs - (i + 8) + 7) div 8)"
      by (rule cnt_step)
    have "to_octets_loop bs i out = to_octets_loop bs (i + 8) (out @ [slice_u8 i (i + 8) bs])"
      using True by (simp add: to_octets_loop.simps [of bs i out])
    also have "\<dots> = (out @ [slice_u8 i (i + 8) bs]) @
        map (\<lambda>k. take 8 (drop (i + 8 + 8 * k) bs)) [0 ..< (length bs - (i + 8) + 7) div 8]"
      using 1 True by simp
    also have "\<dots> = out @
        map (\<lambda>k. take 8 (drop (i + 8 * k) bs)) [0 ..< Suc ((length bs - (i + 8) + 7) div 8)]"
      by (simp add: slice_u8_def map_upt_Suc add.assoc del: upt_Suc)
    finally show ?thesis by (simp only: cnt)
  next
    case False
    then have "(length bs - i + 7) div 8 = 0" by simp
    with False show ?thesis by (simp add: to_octets_loop.simps [of bs i out])
  qed
qed
lemma full_octet_before_last:
  fixes k n :: nat
  assumes "k < (n + 7) div 8 - 1"
  shows "8 * k + 8 \<le> n"
proof -
  from assms have "k + 2 \<le> (n + 7) div 8" by simp
  then have "(k + 2) * 8 \<le> n + 7" by (simp add: less_eq_div_iff_mult_less_eq)
  then show ?thesis by simp
qed

lemma octet_count_pos:
  fixes n :: nat
  assumes "0 < n"
  shows "0 < (n + 7) div 8"
  using assms by (simp add: div_greater_zero_iff)

lemma last_octet_length:
  fixes n :: nat
  assumes "0 < n"
  shows "min 8 (n - 8 * ((n + 7) div 8 - 1)) = (if n mod 8 = 0 then 8 else n mod 8)"
proof (cases "n mod 8 = 0")
  case True
  then obtain q where q: "n = 8 * q" by (auto simp: mod_eq_0_iff_dvd)
  with assms have "0 < q" by simp
  have "(8 * q + 7) div 8 = q" by simp
  with q \<open>0 < q\<close> True show ?thesis by (simp add: algebra_simps)
next
  case False
  define q r where "q = n div 8" and "r = n mod 8"
  then have n: "n = 8 * q + r" and r: "0 < r" "r < 8" using False by simp_all
  from r have "(r + 7) div 8 = 1" by (simp add: div_nat_eqI)
  then have "(8 * q + r + 7) div 8 = q + 1"
    using div_mult_self2 [of 8 "r + 7" q] by (simp add: add.assoc add.commute)
  with n r False show ?thesis by (simp add: r_def [symmetric])
qed

lemma to_octets_closed:
  "to_octets bs = map (\<lambda>k. take 8 (drop (8 * k) bs)) [0 ..< (length bs + 7) div 8]"
  by (simp add: to_octets_def to_octets_loop_closed)

text \<open>
  C3. \<^verbatim>\<open>to_octets\<close> groups the bits in arrival order: the octets one after the other
  are the bitstream, the k-th octet is the 8 bits from index \<open>8 * k\<close> on, every octet
  but the last has exactly 8 bits, and a bit count that is not a multiple of 8 leaves
  the remaining bits, unpadded, as the last octet. The grouping is a function of the
  bitstream alone.
\<close>

theorem to_octets_groups:
  "concat (to_octets bitstream) = bitstream \<and>
   length (to_octets bitstream) = (length bitstream + 7) div 8 \<and>
   (\<forall>k < length (to_octets bitstream).
      to_octets bitstream ! k = take 8 (drop (8 * k) bitstream)) \<and>
   (\<forall>octet \<in> set (butlast (to_octets bitstream)). length octet = 8) \<and>
   (bitstream \<noteq> [] \<longrightarrow>
      length (last (to_octets bitstream)) =
        (if length bitstream mod 8 = 0 then 8 else length bitstream mod 8))"
proof (intro conjI)
  let ?n = "length bitstream"
  let ?m = "(?n + 7) div 8"
  show "concat (to_octets bitstream) = bitstream"
    by (simp add: to_octets_def to_octets_loop_concat)
  show len: "length (to_octets bitstream) = ?m"
    by (simp add: to_octets_closed)
  show nth: "\<forall>k < length (to_octets bitstream).
      to_octets bitstream ! k = take 8 (drop (8 * k) bitstream)"
    by (simp add: to_octets_closed)
  show "\<forall>octet \<in> set (butlast (to_octets bitstream)). length octet = 8"
  proof
    fix octet assume "octet \<in> set (butlast (to_octets bitstream))"
    then obtain k where k: "k < ?m - 1" and oct: "octet = butlast (to_octets bitstream) ! k"
      using len by (auto simp: in_set_conv_nth)
    from k len have "octet = to_octets bitstream ! k"
      by (simp add: oct nth_butlast)
    with k nth len have "octet = take 8 (drop (8 * k) bitstream)" by simp
    moreover from k have "8 * k + 8 \<le> ?n" by (rule full_octet_before_last)
    ultimately show "length octet = 8" by simp
  qed
  show "bitstream \<noteq> [] \<longrightarrow>
      length (last (to_octets bitstream)) =
        (if length bitstream mod 8 = 0 then 8 else length bitstream mod 8)"
  proof
    assume "bitstream \<noteq> []"
    then have pos: "0 < ?n" by simp
    then have m: "0 < ?m" by (rule octet_count_pos)
    with len have ne: "to_octets bitstream \<noteq> []" by auto
    have "last (to_octets bitstream) = to_octets bitstream ! (?m - 1)"
      using len ne by (simp add: last_conv_nth)
    also have "\<dots> = take 8 (drop (8 * (?m - 1)) bitstream)"
      using nth len m by simp
    finally have "length (last (to_octets bitstream)) = min 8 (?n - 8 * (?m - 1))"
      by (simp add: min.commute)
    also have "\<dots> = (if ?n mod 8 = 0 then 8 else ?n mod 8)"
      using pos by (rule last_octet_length)
    finally show "length (last (to_octets bitstream)) =
        (if length bitstream mod 8 = 0 then 8 else length bitstream mod 8)" .
  qed
qed

theorem to_octets_groups_witness:
  "[1, 0, 1, 1, 0, 0, 1, 0, 1, 1, 0, 1 :: 8 word] \<noteq> [] \<and>
   to_octets [1, 0, 1, 1, 0, 0, 1, 0, 1, 1, 0, 1] = [[1, 0, 1, 1, 0, 0, 1, 0], [1, 1, 0, 1]] \<and>
   (1::nat) < length (to_octets [1, 0, 1, 1, 0, 0, 1, 0, 1, 1, 0, 1]) \<and>
   to_octets [1, 0, 1, 1, 0, 0, 1, 0, 1, 1, 0, 1] ! 1 = [1, 1, 0, 1] \<and>
   [1, 0, 1, 1, 0, 0, 1, 0] \<in> set (butlast (to_octets [1, 0, 1, 1, 0, 0, 1, 0, 1, 1, 0, 1])) \<and>
   length (last (to_octets [1, 0, 1, 1, 0, 0, 1, 0, 1, 1, 0, 1])) = 4"
proof -
  let ?bits = "[1, 0, 1, 1, 0, 0, 1, 0, 1, 1, 0, 1 :: 8 word]"
  have val: "to_octets ?bits = [[1, 0, 1, 1, 0, 0, 1, 0], [1, 1, 0, 1]]"
    by (simp add: to_octets_closed upt_rec)
  from to_octets_groups [of ?bits] have
    "length (last (to_octets ?bits)) = (if length ?bits mod 8 = 0 then 8 else length ?bits mod 8)"
    and "\<forall>k < length (to_octets ?bits). to_octets ?bits ! k = take 8 (drop (8 * k) ?bits)"
    by blast+
  with val show ?thesis by simp
qed

section \<open>The command cards\<close>

lemma display_ir_code_cases:
  "display_ir_code ir_code = Inl Unimplemented \<and> \<not> has_tag ir_code \<or>
   (\<exists>els. display_ir_code ir_code = Inr els \<and> 2 \<le> length els \<and> has_tag ir_code)"
  by (simp add: display_ir_code_def has_tag_def render_list_def split: option.split)

lemma display_ir_code_vendor_length:
  "has_vendor_tag ir_code \<Longrightarrow> \<exists>els. display_ir_code ir_code = Inr els \<and> 3 \<le> length els"
  by (auto simp add: display_ir_code_def has_vendor_tag_def render_list_def split: option.split)

lemma display_ir_code_unknown:
  "display_ir_code (unknown_code frames) =
     Inr [descriptions_item ''manufacturer'' ''manufacturer'' text_unknown,
          descriptions_item ''device'' ''device'' text_unknown]"
  by (simp add: display_ir_code_def unknown_code_def no_code_def render_list_def)

text \<open>
  C4. For every control code that carries one of the six tags Sirc, PanasonicHvac,
  DaikinHvac, HitachiHvac, MitsubishiElectricHvac, Unknown, \<^verbatim>\<open>display_ir_code\<close> returns
  a non-empty list of items; it throws exactly when none of the six keys is present.
  An Unknown code is rendered as two items of its own, which differ from the rendering
  of every code with another tag, and not as an error.
\<close>

theorem display_ir_code_total:
  "(has_tag ir_code \<longrightarrow> (\<exists>els. display_ir_code ir_code = Inr els \<and> els \<noteq> [])) \<and>
   (display_ir_code ir_code = Inl Unimplemented \<longleftrightarrow> \<not> has_tag ir_code) \<and>
   display_ir_code (unknown_code frames) =
     Inr [descriptions_item ''manufacturer'' ''manufacturer'' text_unknown,
          descriptions_item ''device'' ''device'' text_unknown] \<and>
   (has_vendor_tag ir_code \<longrightarrow>
      display_ir_code ir_code \<noteq> display_ir_code (unknown_code frames))"
proof (intro conjI impI)
  assume "has_tag ir_code"
  with display_ir_code_cases [of ir_code]
  show "\<exists>els. display_ir_code ir_code = Inr els \<and> els \<noteq> []" by auto
next
  from display_ir_code_cases [of ir_code]
  show "display_ir_code ir_code = Inl Unimplemented \<longleftrightarrow> \<not> has_tag ir_code" by auto
next
  show "display_ir_code (unknown_code frames) =
     Inr [descriptions_item ''manufacturer'' ''manufacturer'' text_unknown,
          descriptions_item ''device'' ''device'' text_unknown]"
    by (rule display_ir_code_unknown)
next
  assume "has_vendor_tag ir_code"
  then obtain els where "display_ir_code ir_code = Inr els" and "3 \<le> length els"
    using display_ir_code_vendor_length by blast
  then show "display_ir_code ir_code \<noteq> display_ir_code (unknown_code frames)"
    by (auto simp add: display_ir_code_unknown)
qed

theorem display_ir_code_total_witness:
  "has_tag (no_code\<lparr>cc_Sirc := Some \<lparr>command = ''18'', device = ''1''\<rparr>\<rparr>
     :: nat InfraredRemoteControlCode) \<and>
   has_vendor_tag (no_code\<lparr>cc_Sirc := Some \<lparr>command = ''18'', device = ''1''\<rparr>\<rparr>
     :: nat InfraredRemoteControlCode) \<and>
   display_ir_code (no_code\<lparr>cc_Sirc := Some \<lparr>command = ''18'', device = ''1''\<rparr>\<rparr>
     :: nat InfraredRemoteControlCode) =
     Inr [descriptions_item ''manufacturer'' ''manufacturer'' text_sony,
          descriptions_item ''device'' ''device'' ''1'',
          descriptions_item ''command'' ''command'' ''18''] \<and>
   display_ir_code (no_code\<lparr>cc_Sirc := Some \<lparr>command = ''18'', device = ''1''\<rparr>\<rparr>
     :: nat InfraredRemoteControlCode) \<noteq> display_ir_code (unknown_code [])"
proof -
  let ?c = "no_code\<lparr>cc_Sirc := Some \<lparr>command = ''18'', device = ''1''\<rparr>\<rparr>
     :: nat InfraredRemoteControlCode"
  have t: "has_tag ?c" and v: "has_vendor_tag ?c"
    by (simp_all add: has_tag_def has_vendor_tag_def no_code_def)
  have val: "display_ir_code ?c =
     Inr [descriptions_item ''manufacturer'' ''manufacturer'' text_sony,
          descriptions_item ''device'' ''device'' ''1'',
          descriptions_item ''command'' ''command'' ''18'']"
    by (simp add: display_ir_code_def no_code_def render_list_def)
  from display_ir_code_total [of ?c "[]"] v
  have "display_ir_code ?c \<noteq> display_ir_code (unknown_code [])" by blast
  with t v val show ?thesis by simp
qed

section \<open>The TimingParser and the text form of a pair sequence\<close>

lemma digit_nth:
  assumes "n < 10"
  shows "is_digit (''0123456789'' ! n) \<and> digit_value (''0123456789'' ! n) = n"
proof -
  from assms have "n \<in> {0, 1, 2, 3, 4, 5, 6, 7, 8, 9}" by auto
  then show ?thesis
    by (elim insertE emptyE) (simp_all add: is_digit_def digit_value_def)
qed

lemma toString10_digits: "\<forall>c \<in> set (toString10 n). is_digit c"
proof (induction n rule: toString10.induct)
  case (1 n)
  show ?case
  proof (cases "n < 10")
    case True
    then show ?thesis using digit_nth [of n] by (subst toString10.simps) simp
  next
    case False
    then have "n mod 10 < 10" by simp
    with False 1 show ?thesis using digit_nth [of "n mod 10"]
      by (subst toString10.simps) simp
  qed
qed

lemma toString10_nonempty: "toString10 n \<noteq> []"
  by (subst toString10.simps) simp

lemma parse_digits_snoc:
  "parse_digits acc (s @ [c]) =
     (case parse_digits acc s of
        None \<Rightarrow> None
      | Some v \<Rightarrow> if is_digit c then Some (10 * v + digit_value c) else None)"
  by (induction s arbitrary: acc) simp_all

lemma parse_digits_toString10: "parse_digits 0 (toString10 n) = Some n"
proof (induction n rule: toString10.induct)
  case (1 n)
  show ?case
  proof (cases "n < 10")
    case True
    then show ?thesis using digit_nth [of n] by (subst toString10.simps) simp
  next
    case False
    then have "n mod 10 < 10" by simp
    with False 1 show ?thesis using digit_nth [of "n mod 10"]
      by (subst toString10.simps) (simp add: parse_digits_snoc)
  qed
qed

lemma parse_token_toString10: "parse_token (toString10 n) = Some n"
  by (simp add: parse_token_def toString10_nonempty parse_digits_toString10)

lemma parse_tokens_toString10: "parse_tokens (map toString10 ns) = Some ns"
  by (induction ns) (simp_all add: parse_token_toString10)

lemma tokens_from_word:
  "\<forall>c \<in> set t. \<not> delim c \<Longrightarrow> tokens_from delim cur (t @ rest) = tokens_from delim (cur @ t) rest"
  by (induction t arbitrary: cur) simp_all

lemma tokens_from_render_numbers:
  assumes nd: "\<forall>c. delim c \<longrightarrow> \<not> is_digit c"
  shows "delim d \<Longrightarrow> tokens_from delim [] (render_numbers d ns) = map toString10 ns"
proof (induction d ns rule: render_numbers.induct)
  case (1 d)
  show ?case by simp
next
  case (2 d n)
  have "\<forall>c \<in> set (toString10 n). \<not> delim c"
    using nd toString10_digits by blast
  from tokens_from_word [OF this, of "[]" "[]"] show ?case
    by (simp add: toString10_nonempty)
next
  case (3 d n m ns)
  have "\<forall>c \<in> set (toString10 n). \<not> delim c"
    using nd toString10_digits by blast
  from tokens_from_word [OF this, of "[]" "d # render_numbers d (m # ns)"] 3
  show ?case by (simp add: toString10_nonempty)
qed

lemma to_pairs_durations: "to_pairs (durations pairs) = pairs"
  by (induction pairs) (simp_all add: durations_def)

lemma durations_in_range:
  "\<forall>p \<in> set pairs. mark p \<le> upper \<and> space p \<le> upper \<Longrightarrow>
     \<not> list_ex (\<lambda>n. upper < n) (durations pairs)"
  by (induction pairs) (auto simp add: durations_def)


text \<open>
  C5 as stated: every pair sequence survives rendering and parsing. Under the
  specification's own rules for the parser it does not: the empty sequence renders to
  the empty text, which the parser rejects as malformed, and a duration above the
  upper bound is rejected as out of range.
\<close>

theorem wasm_parse_infrared_code_render_counterexample:
  "wasm_parse_infrared_code comma_or_blank 1000000 (render (CHR '','') []) = Inl MalformedInput \<and>
   wasm_parse_infrared_code comma_or_blank 1000000
     (render (CHR '','') [\<lparr>mark = 1000001, space = 500\<rparr>]) = Inl OutOfRange"
  by (simp add: wasm_parse_infrared_code_def render_def durations_def comma_or_blank_def
      toString10.simps parse_token_def is_digit_def digit_value_def)

text \<open>
  C5, amended. For every non-empty sequence of mark/space pairs whose durations do not
  exceed the parser's upper bound, rendering the sequence to its text form (decimal
  numbers in arrival order with an accepted delimiter between them) and parsing that
  text returns exactly the original sequence. The accepted delimiters never include a
  digit.
\<close>

theorem wasm_parse_infrared_code_render:
  assumes "delim d" and "\<forall>c. delim c \<longrightarrow> \<not> is_digit c"
    and "pairs \<noteq> []"
    and "\<forall>p \<in> set pairs. mark p \<le> upper \<and> space p \<le> upper"
  shows "wasm_parse_infrared_code delim upper (render d pairs) = Inr pairs"
proof -
  have toks: "tokens_from delim [] (render d pairs) = map toString10 (durations pairs)"
    using assms(1,2) by (simp add: render_def tokens_from_render_numbers)
  from assms(3) have "durations pairs \<noteq> []"
    by (cases pairs) (simp_all add: durations_def)
  with toks durations_in_range [OF assms(4)] show ?thesis
    by (simp add: wasm_parse_infrared_code_def parse_tokens_toString10 to_pairs_durations)
qed

theorem wasm_parse_infrared_code_render_witness:
  "comma_or_blank (CHR '','') \<and>
   [\<lparr>mark = 9000, space = 4500\<rparr>, \<lparr>mark = 560, space = 1690\<rparr>] \<noteq> [] \<and>
   render (CHR '','') [\<lparr>mark = 9000, space = 4500\<rparr>, \<lparr>mark = 560, space = 1690\<rparr>] =
     ''9000,4500,560,1690'' \<and>
   wasm_parse_infrared_code comma_or_blank 1000000 ''9000,4500,560,1690'' =
     Inr [\<lparr>mark = 9000, space = 4500\<rparr>, \<lparr>mark = 560, space = 1690\<rparr>]"
proof -
  let ?pairs = "[\<lparr>mark = 9000, space = 4500\<rparr>, \<lparr>mark = 560, space = 1690\<rparr>]"
  have d: "comma_or_blank (CHR '','')" by (simp add: comma_or_blank_def)
  have nd: "\<forall>c. comma_or_blank c \<longrightarrow> \<not> is_digit c"
    by (simp add: comma_or_blank_def is_digit_def)
  have ne: "?pairs \<noteq> []" by simp
  have range: "\<forall>p \<in> set ?pairs. mark p \<le> 1000000 \<and> space p \<le> 1000000" by simp
  have rendered: "render (CHR '','') ?pairs = ''9000,4500,560,1690''"
    by (simp add: render_def durations_def toString10.simps)
  from wasm_parse_infrared_code_render [OF d nd ne range] d ne rendered
  show ?thesis by simp
qed

section \<open>The array store is left as it was\<close>

text \<open>
  C7. For either bit order and every array in the store, \<^verbatim>\<open>to_hex_string\<close> leaves
  every array that existed before the call as it was, the argument included: the
  LSB-first order reverses a fresh copy. The string is the hexadecimal text, padded to
  two digits, of the bits read in the chosen order.
\<close>

theorem to_hex_string_frame:
  assumes "octets < length h"
  shows "take (length h) (snd (to_hex_string msb_first octets h)) = h \<and>
         snd (to_hex_string msb_first octets h) ! octets = h ! octets \<and>
         fst (to_hex_string msb_first octets h) =
           padStart 2 (CHR ''0'')
             (toString16 (reduce_bits (if msb_first then h ! octets else rev (h ! octets))))"
  using assms
  by (simp add: to_hex_string_def store_slice_def store_reverse_def nth_append)

theorem to_hex_string_frame_witness:
  "(0::nat) < length [[1, 1, 0, 1 :: 8 word]] \<and>
   to_hex_string False 0 [[1, 1, 0, 1]] = (''0b'', [[1, 1, 0, 1], [1, 0, 1, 1]]) \<and>
   to_hex_string True 0 [[1, 1, 0, 1]] = (''0d'', [[1, 1, 0, 1]])"
proof -
  have len: "(0::nat) < length [[1, 1, 0, 1 :: 8 word]]" by simp
  have a: "to_hex_string False 0 [[1, 1, 0, 1]] = (''0b'', [[1, 1, 0, 1], [1, 0, 1, 1]])"
    using to_hex_string_frame [OF len, of False]
    by (simp add: to_hex_string_def store_slice_def store_reverse_def reduce_bits_def padStart_def
        toString16.simps)
  have b: "to_hex_string True 0 [[1, 1, 0, 1]] = (''0d'', [[1, 1, 0, 1]])"
    using to_hex_string_frame [OF len, of True]
    by (simp add: to_hex_string_def store_slice_def store_reverse_def reduce_bits_def padStart_def
        toString16.simps)
  from len a b show ?thesis by simp
qed

section \<open>Properties of the chart points\<close>

lemma conv_loop_append:
  "conv_ir_control_signal_loop xs s out = out @ conv_ir_control_signal_loop xs s []"
proof (induction xs arbitrary: s out)
  case Nil
  show ?case by simp
next
  case (Cons x xs)
  let ?p1 = "\<lparr>time = s + mark x, bit_level = 1\<rparr>"
  let ?p2 = "\<lparr>time = s + mark x + space x, bit_level = 0\<rparr>"
  show ?case
    using Cons.IH [of "s + mark x + space x" "out @ [?p1, ?p2]"]
          Cons.IH [of "s + mark x + space x" "[?p1, ?p2]"]
    by (simp add: Let_def)
qed

lemma conv_loop_Cons:
  "conv_ir_control_signal_loop (x # xs) s [] =
     \<lparr>time = s + mark x, bit_level = 1\<rparr> # \<lparr>time = s + mark x + space x, bit_level = 0\<rparr> #
     conv_ir_control_signal_loop xs (s + mark x + space x) []"
  using conv_loop_append [of xs "s + mark x + space x"
      "[\<lparr>time = s + mark x, bit_level = 1\<rparr>, \<lparr>time = s + mark x + space x, bit_level = 0\<rparr>]"]
  by (simp add: Let_def)

lemma conv_loop_length: "length (conv_ir_control_signal_loop xs s []) = 2 * length xs"
  by (induction xs arbitrary: s) (simp_all add: conv_loop_Cons del: conv_ir_control_signal_loop.simps(2))

lemma conv_loop_nth:
  "k < length xs \<Longrightarrow>
     conv_ir_control_signal_loop xs s [] ! (2 * k) =
       \<lparr>time = s + sum_list (map pair_duration (take k xs)) + mark (xs ! k), bit_level = 1\<rparr> \<and>
     conv_ir_control_signal_loop xs s [] ! (2 * k + 1) =
       \<lparr>time = s + sum_list (map pair_duration (take (Suc k) xs)), bit_level = 0\<rparr>"
proof (induction xs arbitrary: s k)
  case Nil
  then show ?case by simp
next
  case (Cons x xs)
  show ?case
  proof (cases k)
    case 0
    then show ?thesis by (simp add: conv_loop_Cons pair_duration_def del: conv_ir_control_signal_loop.simps(2))
  next
    case (Suc j)
    with Cons.prems have j: "j < length xs" by simp
    from Cons.IH [OF j, of "s + mark x + space x"] Suc show ?thesis
      by (simp add: conv_loop_Cons pair_duration_def add.assoc del: conv_ir_control_signal_loop.simps(2))
  qed
qed

text \<open>
  C8. For a non-empty list of \<open>n\<close> pairs \<^verbatim>\<open>conv_ir_control_signal\<close> returns
  \<open>2 * n + 1\<close> points: the first is time 0 at level 0, the point after the k-th mark
  is at level 1, the point after the k-th space is at level 0, each at the time all
  marks and spaces so far add up to, and the last point's time is the sum of all marks
  and spaces. For the empty list it returns the empty list.
\<close>

theorem conv_ir_control_signal_points:
  "conv_ir_control_signal [] = [] \<and>
   (input \<noteq> [] \<longrightarrow>
      length (conv_ir_control_signal input) = 2 * length input + 1 \<and>
      conv_ir_control_signal input ! 0 = \<lparr>time = 0, bit_level = 0\<rparr> \<and>
      (\<forall>k < length input.
         conv_ir_control_signal input ! (2 * k + 1) =
           \<lparr>time = sum_list (map pair_duration (take k input)) + mark (input ! k), bit_level = 1\<rparr> \<and>
         conv_ir_control_signal input ! (2 * k + 2) =
           \<lparr>time = sum_list (map pair_duration (take (Suc k) input)), bit_level = 0\<rparr>) \<and>
      time (last (conv_ir_control_signal input)) = sum_list (map pair_duration input))"
proof (intro conjI impI allI)
  show "conv_ir_control_signal [] = []" by (simp add: conv_ir_control_signal_def)
next
  assume ne: "input \<noteq> []"
  then have unfold: "conv_ir_control_signal input =
      \<lparr>time = 0, bit_level = 0\<rparr> # conv_ir_control_signal_loop input 0 []"
    using conv_loop_append [of input 0 "[\<lparr>time = 0, bit_level = 0\<rparr>]"]
    by (cases input) (simp_all add: conv_ir_control_signal_def)
  show "length (conv_ir_control_signal input) = 2 * length input + 1"
    by (simp add: unfold conv_loop_length)
  show "conv_ir_control_signal input ! 0 = \<lparr>time = 0, bit_level = 0\<rparr>"
    by (simp add: unfold)
  {
    fix k assume k: "k < length input"
    from conv_loop_nth [OF k, of 0]
    show "conv_ir_control_signal input ! (2 * k + 1) =
           \<lparr>time = sum_list (map pair_duration (take k input)) + mark (input ! k), bit_level = 1\<rparr>"
      and "conv_ir_control_signal input ! (2 * k + 2) =
           \<lparr>time = sum_list (map pair_duration (take (Suc k) input)), bit_level = 0\<rparr>"
      by (simp_all add: unfold)
  }
  from ne obtain n where n: "length input = Suc n" by (cases input) auto
  have len: "length (conv_ir_control_signal_loop input 0 []) = 2 * n + 2"
    using conv_loop_length [of input 0] n by simp
  then have "conv_ir_control_signal_loop input 0 [] \<noteq> []" by auto
  then have "last (conv_ir_control_signal input) = conv_ir_control_signal_loop input 0 [] ! (2 * n + 1)"
    using len by (simp add: unfold last_conv_nth)
  also have "\<dots> = \<lparr>time = 0 + sum_list (map pair_duration (take (Suc n) input)), bit_level = 0\<rparr>"
    using conv_loop_nth [of n input 0] n by simp
  finally show "time (last (conv_ir_control_signal input)) = sum_list (map pair_duration input)"
    using n by simp
qed

theorem conv_ir_control_signal_points_witness:
  "[\<lparr>mark = 9000, space = 4500\<rparr>, \<lparr>mark = 560, space = 1690\<rparr>] \<noteq> [] \<and>
   conv_ir_control_signal [\<lparr>mark = 9000, space = 4500\<rparr>, \<lparr>mark = 560, space = 1690\<rparr>] =
     [\<lparr>time = 0, bit_level = 0\<rparr>, \<lparr>time = 9000, bit_level = 1\<rparr>,
      \<lparr>time = 13500, bit_level = 0\<rparr>, \<lparr>time = 14060, bit_level = 1\<rparr>,
      \<lparr>time = 15750, bit_level = 0\<rparr>] \<and>
   time (last (conv_ir_control_signal
     [\<lparr>mark = 9000, space = 4500\<rparr>, \<lparr>mark = 560, space = 1690\<rparr>])) = 15750"
proof -
  let ?input = "[\<lparr>mark = 9000, space = 4500\<rparr>, \<lparr>mark = 560, space = 1690\<rparr>]"
  have ne: "?input \<noteq> []" by simp
  have val: "conv_ir_control_signal ?input =
     [\<lparr>time = 0, bit_level = 0\<rparr>, \<lparr>time = 9000, bit_level = 1\<rparr>,
      \<lparr>time = 13500, bit_level = 0\<rparr>, \<lparr>time = 14060, bit_level = 1\<rparr>,
      \<lparr>time = 15750, bit_level = 0\<rparr>]"
    by (simp add: conv_ir_control_signal_def Let_def)
  from conv_ir_control_signal_points [of ?input] ne
  have "time (last (conv_ir_control_signal ?input)) = sum_list (map pair_duration ?input)"
    by blast
  with ne val show ?thesis by (simp add: pair_duration_def)
qed

section \<open>Properties of the table rows\<close>

lemma list_loop_append:
  "convert_for_list_loop xs st sq out = out @ convert_for_list_loop xs st sq []"
proof (induction xs arbitrary: st sq out)
  case Nil
  show ?case by simp
next
  case (Cons x xs)
  let ?r1 = "\<lparr>key = sq, seq_num = sq, start_time = st, kinds = ''Mark'', duration = mark x\<rparr>"
  let ?r2 = "\<lparr>key = sq + 1, seq_num = sq + 1, start_time = st + mark x, kinds = ''Space'',
              duration = space x\<rparr>"
  show ?case
    using Cons.IH [of "st + mark x + space x" "sq + 1 + 1" "out @ [?r1, ?r2]"]
          Cons.IH [of "st + mark x + space x" "sq + 1 + 1" "[?r1, ?r2]"]
    by (simp add: Let_def)
qed

lemma list_loop_Cons:
  "convert_for_list_loop (x # xs) st sq [] =
     \<lparr>key = sq, seq_num = sq, start_time = st, kinds = ''Mark'', duration = mark x\<rparr> #
     \<lparr>key = sq + 1, seq_num = sq + 1, start_time = st + mark x, kinds = ''Space'',
       duration = space x\<rparr> #
     convert_for_list_loop xs (st + mark x + space x) (sq + 2) []"
  using list_loop_append [of xs "st + mark x + space x" "sq + 1 + 1"
      "[\<lparr>key = sq, seq_num = sq, start_time = st, kinds = ''Mark'', duration = mark x\<rparr>,
        \<lparr>key = sq + 1, seq_num = sq + 1, start_time = st + mark x, kinds = ''Space'',
          duration = space x\<rparr>]"]
  by (simp add: Let_def numeral_2_eq_2)

lemma list_loop_length: "length (convert_for_list_loop xs st sq []) = 2 * length xs"
  by (induction xs arbitrary: st sq) (simp_all add: list_loop_Cons del: convert_for_list_loop.simps(2))

lemma list_loop_nth:
  "i < 2 * length xs \<Longrightarrow>
     key (convert_for_list_loop xs st sq [] ! i) = sq + i \<and>
     seq_num (convert_for_list_loop xs st sq [] ! i) = sq + i \<and>
     kinds (convert_for_list_loop xs st sq [] ! i) = (if even i then ''Mark'' else ''Space'') \<and>
     duration (convert_for_list_loop xs st sq [] ! i) =
       (if even i then mark (xs ! (i div 2)) else space (xs ! (i div 2))) \<and>
     start_time (convert_for_list_loop xs st sq [] ! i) =
       st + sum_list (map duration (take i (convert_for_list_loop xs st sq [])))"
proof (induction xs arbitrary: st sq i)
  case Nil
  then show ?case by simp
next
  case (Cons x xs)
  consider "i = 0" | "i = 1" | j where "i = Suc (Suc j)"
    by (cases i rule: nat.exhaust) (auto, metis nat.exhaust One_nat_def)
  then show ?case
  proof cases
    case 1
    then show ?thesis by (simp add: list_loop_Cons del: convert_for_list_loop.simps(2))
  next
    case 2
    then show ?thesis by (simp add: list_loop_Cons del: convert_for_list_loop.simps(2))
  next
    case 3
    with Cons.prems have j: "j < 2 * length xs" by simp
    from Cons.IH [OF j, of "st + mark x + space x" "sq + 2"] 3 show ?thesis
      by (simp add: list_loop_Cons add.assoc del: convert_for_list_loop.simps(2))
  qed
qed

text \<open>
  C9. For a list of \<open>n\<close> pairs \<^verbatim>\<open>convert_for_list\<close> returns \<open>2 * n\<close> rows. The row at
  index \<open>i\<close> (from 0) has the sequence number and key \<open>i + 1\<close>; the rows are Mark,
  Space, Mark, Space and so on, with the mark and the space of the pairs in input
  order as durations; and each row starts at the sum of the durations of the rows
  before it.
\<close>

theorem convert_for_list_rows:
  "length (convert_for_list input) = 2 * length input \<and>
   (\<forall>i < 2 * length input.
      key (convert_for_list input ! i) = i + 1 \<and>
      seq_num (convert_for_list input ! i) = i + 1 \<and>
      kinds (convert_for_list input ! i) = (if even i then ''Mark'' else ''Space'') \<and>
      duration (convert_for_list input ! i) =
        (if even i then mark (input ! (i div 2)) else space (input ! (i div 2))) \<and>
      start_time (convert_for_list input ! i) =
        sum_list (map duration (take i (convert_for_list input))))"
proof (intro conjI allI impI)
  show "length (convert_for_list input) = 2 * length input"
    by (simp add: convert_for_list_def list_loop_length)
next
  fix i assume i: "i < 2 * length input"
  from list_loop_nth [OF i, of 0 1]
  show "key (convert_for_list input ! i) = i + 1"
    and "seq_num (convert_for_list input ! i) = i + 1"
    and "kinds (convert_for_list input ! i) = (if even i then ''Mark'' else ''Space'')"
    and "duration (convert_for_list input ! i) =
        (if even i then mark (input ! (i div 2)) else space (input ! (i div 2)))"
    and "start_time (convert_for_list input ! i) =
        sum_list (map duration (take i (convert_for_list input)))"
    by (simp_all add: convert_for_list_def)
qed

theorem convert_for_list_rows_witness:
  "(3::nat) < 2 * length [\<lparr>mark = 9000, space = 4500\<rparr>, \<lparr>mark = 560, space = 1690\<rparr>] \<and>
   convert_for_list [\<lparr>mark = 9000, space = 4500\<rparr>, \<lparr>mark = 560, space = 1690\<rparr>] =
     [\<lparr>key = 1, seq_num = 1, start_time = 0, kinds = ''Mark'', duration = 9000\<rparr>,
      \<lparr>key = 2, seq_num = 2, start_time = 9000, kinds = ''Space'', duration = 4500\<rparr>,
      \<lparr>key = 3, seq_num = 3, start_time = 13500, kinds = ''Mark'', duration = 560\<rparr>,
      \<lparr>key = 4, seq_num = 4, start_time = 14060, kinds = ''Space'', duration = 1690\<rparr>] \<and>
   start_time (convert_for_list
     [\<lparr>mark = 9000, space = 4500\<rparr>, \<lparr>mark = 560, space = 1690\<rparr>] ! 3) = 14060"
proof -
  let ?input = "[\<lparr>mark = 9000, space = 4500\<rparr>, \<lparr>mark = 560, space = 1690\<rparr>]"
  have i: "(3::nat) < 2 * length ?input" by simp
  have val: "convert_for_list ?input =
     [\<lparr>key = 1, seq_num = 1, start_time = 0, kinds = ''Mark'', duration = 9000\<rparr>,
      \<lparr>key = 2, seq_num = 2, start_time = 9000, kinds = ''Space'', duration = 4500\<rparr>,
      \<lparr>key = 3, seq_num = 3, start_time = 13500, kinds = ''Mark'', duration = 560\<rparr>,
      \<lparr>key = 4, seq_num = 4, start_time = 14060, kinds = ''Space'', duration = 1690\<rparr>]"
    by (simp add: convert_for_list_def Let_def)
  from convert_for_list_rows [of ?input] i
  have "start_time (convert_for_list ?input ! 3) =
          sum_list (map duration (take 3 (convert_for_list ?input)))"
    by blast
  with i val show ?thesis by simp
qed

section \<open>Ingesting received lines\<close>

lemma split_lines_from_nonempty: "split_lines_from cur s \<noteq> []"
  by (induction cur s rule: split_lines_from.induct) simp_all

lemma split_lines_nonempty: "split_lines s \<noteq> []"
  by (simp add: split_lines_def split_lines_from_nonempty)

lemma index0_drop: "k < length xs \<Longrightarrow> index0 (drop k xs) = Some (xs ! k)"
  by (simp add: index0_def Cons_nth_drop_Suc [symmetric])

lemma index0_slice_last2:
  assumes "xs \<noteq> []"
  shows "index0 (slice_last2 xs) =
           Some (if 2 \<le> length xs then xs ! (length xs - 2) else xs ! 0)"
proof (cases "2 \<le> length xs")
  case True
  then have "length xs - 2 < length xs" by simp
  then show ?thesis using True by (simp add: slice_last2_def index0_drop)
next
  case False
  then have "length xs - 2 = 0" by simp
  with assms False show ?thesis
    by (cases xs) (simp_all add: slice_last2_def index0_def)
qed

text \<open>
  C10 as stated: only the second-to-last line is considered. A text without any line
  break has no second-to-last line, yet the effect considers its only line: the text
  \<^verbatim>\<open>1\<close> is parsed, appended, and the buffer cleared.
\<close>

theorem rx_text_effect_single_line_counterexample:
  "rx_text_effect parse_only_one \<lparr>rxJsonData = [], rxText = ''1''\<rparr> =
     \<lparr>rxJsonData = [1], rxText = []\<rparr> \<and>
   rx_text_effect_second_to_last_only parse_only_one \<lparr>rxJsonData = [], rxText = ''1''\<rparr> =
     \<lparr>rxJsonData = [], rxText = ''1''\<rparr> \<and>
   rx_text_effect parse_only_one \<lparr>rxJsonData = [], rxText = ''1''\<rparr> \<noteq>
     rx_text_effect_second_to_last_only parse_only_one \<lparr>rxJsonData = [], rxText = ''1''\<rparr>"
  by (simp add: rx_text_effect_def rx_text_effect_second_to_last_only_def second_to_last_def
      split_lines_def slice_last2_def index0_def parse_only_one_def)

text \<open>
  C10, amended. On each change of the receive text one line is considered: the
  second-to-last line when the text has a line break, the only line when it has none.
  If that line is not empty and parses as JSON, the parsed record is appended to the
  received data and the text is cleared; if it is empty or parsing throws, both are
  left as they were.
\<close>

theorem rx_text_effect_considered_line:
  "split_lines (rxText st) \<noteq> [] \<and>
   (let lines = split_lines (rxText st);
        l = (if 2 \<le> length lines then lines ! (length lines - 2) else lines ! 0)
    in (l \<noteq> [] \<and> JSON_parse l = Some rx_json \<longrightarrow>
          rx_text_effect JSON_parse st = st\<lparr>rxJsonData := rxJsonData st @ [rx_json], rxText := []\<rparr>) \<and>
       (l = [] \<or> JSON_parse l = None \<longrightarrow> rx_text_effect JSON_parse st = st))"
  using index0_slice_last2 [OF split_lines_nonempty, of "rxText st"]
  by (auto simp add: rx_text_effect_def Let_def split_lines_nonempty)

theorem rx_text_effect_considered_line_witness:
  "split_lines [CHR ''1'', CHR 0x0A, CHR ''{''] = [''1'', ''{''] \<and>
   parse_only_one ''1'' = Some 1 \<and>
   rx_text_effect parse_only_one \<lparr>rxJsonData = [7], rxText = [CHR ''1'', CHR 0x0A, CHR ''{'']\<rparr> =
     \<lparr>rxJsonData = [7, 1], rxText = []\<rparr> \<and>
   split_lines [CHR ''{'', CHR 0x0A, CHR ''1''] = [''{'', ''1''] \<and>
   parse_only_one ''{'' = None \<and>
   rx_text_effect parse_only_one \<lparr>rxJsonData = [7], rxText = [CHR ''{'', CHR 0x0A, CHR ''1'']\<rparr> =
     \<lparr>rxJsonData = [7], rxText = [CHR ''{'', CHR 0x0A, CHR ''1'']\<rparr>"
proof -
  let ?a = "\<lparr>rxJsonData = [7::nat], rxText = [CHR ''1'', CHR 0x0A, CHR ''{'']\<rparr>"
  let ?b = "\<lparr>rxJsonData = [7::nat], rxText = [CHR ''{'', CHR 0x0A, CHR ''1'']\<rparr>"
  have la: "split_lines [CHR ''1'', CHR 0x0A, CHR ''{''] = [''1'', ''{'']"
    and lb: "split_lines [CHR ''{'', CHR 0x0A, CHR ''1''] = [''{'', ''1'']"
    by (simp_all add: split_lines_def)
  have pa: "parse_only_one ''1'' = Some 1" and pb: "parse_only_one ''{'' = None"
    by (simp_all add: parse_only_one_def)
  from rx_text_effect_considered_line [of ?a parse_only_one 1] la pa
  have a: "rx_text_effect parse_only_one ?a = \<lparr>rxJsonData = [7, 1], rxText = []\<rparr>"
    by (simp add: Let_def)
  from rx_text_effect_considered_line [of ?b parse_only_one 1] lb pb
  have b: "rx_text_effect parse_only_one ?b = ?b"
    by (simp add: Let_def)
  from la lb pa pb a b show ?thesis by simp
qed

end
